theory Spec2Isabelle
  imports Main
begin

section \<open>The administrative script and the world it talks to\<close>

text \<open>
  The script \<^verbatim>\<open>assignment1_code_sample_1.py\<close> has no data structure of its own: every
  line of it is a call to the outside (a file, the terminal, an HTTPS endpoint, a MySQL
  server, the \<^verbatim>\<open>mail\<close> program). The embedding therefore threads an explicit world
  through each function: the world records the calls made, in program order, and the
  state of the objects the calls act on. What the outside answers is a parameter, the
  environment. A Python exception is the left injection of a sum; it leaves the function
  at once and keeps the world as it was when it was raised.
\<close>

subsection \<open>Values\<close>

text \<open>A JSON value, as \<^verbatim>\<open>json.load\<close> builds it (an object is a Python dictionary).\<close>

datatype json =
    JNull
  | JBool bool
  | JNum int
  | JStr string
  | JArr "json list"
  | JObj "(string \<times> json) list"

text \<open>
  The configuration is whatever value \<^verbatim>\<open>json.load\<close> returns: the script binds it to
  \<^verbatim>\<open>db_config\<close> without looking at it.
\<close>

type_synonym config = json

text \<open>
  What the file \<^verbatim>\<open>db_config.json\<close> is when the script starts: absent, not readable by
  the process, or a file with a content; and its content: bytes that are no text in the
  encoding of the process, text that is no JSON, or the text of a JSON value.
\<close>

datatype file_content = Undecodable | NotJson | Json json

datatype config_file = Missing | Unreadable | Content file_content

text \<open>\<^verbatim>\<open>ssl.create_default_context()\<close> takes no argument and yields the default context.\<close>

datatype ssl_context = DefaultContext

text \<open>
  Python values that can be handed to \<^verbatim>\<open>save_to_db\<close>: text, bytes, or a reference to
  a response object of \<^verbatim>\<open>urlopen\<close> (its index in the world's list of responses).
\<close>

datatype pyobj = Str string | Bytes string | Response nat

text \<open>The exceptions the calls of the script raise.\<close>

datatype error =
    FileNotFoundError string
  | PermissionError string
  | UnicodeDecodeError
  | JSONDecodeError
  | TypeError
  | ValueError
  | EOFError
  | URLError
  | DatabaseError
  | CalledProcessError int

text \<open>One event for each call that leaves the process.\<close>

datatype event =
    Open string string
  | JsonLoad
  | FileClose
  | Input string
  | UrlOpen string ssl_context
  | ResponseClose nat
  | Connect config
  | Cursor
  | Execute string "pyobj list"
  | Commit
  | CursorClose
  | ConnectionClose
  | Run "string list" string

text \<open>A response object: the body the endpoint served and whether it has been closed.\<close>

record response =
  body :: string
  closed :: bool

text \<open>A statement as the cursor receives it: the query text and the bound parameters.\<close>

type_synonym statement = "string \<times> pyobj list"

text \<open>
  The environment: what the outside answers in this run.
  \<^item> \<open>config_file\<close>: the content of \<^verbatim>\<open>db_config.json\<close>;
  \<^item> \<open>stdin\<close>: the line typed at the prompt, \<open>None\<close> at end of input;
  \<^item> \<open>remote\<close>: the body the endpoint serves, \<open>None\<close> when the connection, the TLS
    handshake or the HTTP status fails;
  \<^item> \<open>connect_raises\<close>: what \<^verbatim>\<open>pymysql.connect\<close> raises for given keyword arguments:
    \<open>None\<close> when the connection is established, a database error when the server
    cannot be reached or refuses them, \<^verbatim>\<open>TypeError\<close> or \<^verbatim>\<open>ValueError\<close> when they are
    no arguments of the function;
  \<^item> \<open>execute_ok\<close>, \<open>commit_ok\<close>: whether the server accepts the statement and the commit;
  \<^item> \<open>mail\<close>: the exit status of the mail child and what it wrote to standard error,
    \<open>None\<close> when no \<^verbatim>\<open>mail\<close> executable is on the search path.
\<close>

record env =
  config_file :: config_file
  stdin :: "string option"
  remote :: "string option"
  connect_raises :: "(string \<times> json) list \<Rightarrow> error option"
  execute_ok :: bool
  commit_ok :: bool
  mail :: "(int \<times> string) option"

text \<open>
  The world: the calls made so far, the response objects allocated so far, the statements
  the open connection has executed but not committed, and the statements the database
  holds durably. An \<^verbatim>\<open>INSERT\<close> that is committed is a row of the table.
\<close>

record world =
  trace :: "event list"
  responses :: "response list"
  pending :: "statement list"
  committed :: "statement list"

definition init_world :: world where
  "init_world = \<lparr>trace = [], responses = [], pending = [], committed = []\<rparr>"

type_synonym 'a prog = "world \<Rightarrow> (error + 'a) \<times> world"

subsection \<open>Python's control flow\<close>

definition emit :: "event \<Rightarrow> world \<Rightarrow> world" where
  "emit e w = w\<lparr>trace := trace w @ [e]\<rparr>"

definition return_val :: "'a \<Rightarrow> 'a prog" where
  "return_val x w = (Inr x, w)"

text \<open>Two statements in sequence: an exception of the first skips the second.\<close>

definition andthen :: "'a prog \<Rightarrow> ('a \<Rightarrow> 'b prog) \<Rightarrow> 'b prog" where
  "andthen m f w =
     (case m w of
        (Inl e, w1) \<Rightarrow> (Inl e, w1)
      | (Inr a, w1) \<Rightarrow> f a w1)"

text \<open>
  \<^verbatim>\<open>with acquire as r: body\<close>. When the acquisition raises, nothing else runs. Otherwise
  the body runs, and the exit of the context manager runs whichever way the body ends
  (normally, by \<^verbatim>\<open>return\<close> or by an exception); the body's outcome is then the outcome
  of the statement.
\<close>

definition with_stmt :: "'r prog \<Rightarrow> ('r \<Rightarrow> unit prog) \<Rightarrow> ('r \<Rightarrow> 'a prog) \<Rightarrow> 'a prog" where
  "with_stmt acquire exit_of body_of w =
     (case acquire w of
        (Inl e, w1) \<Rightarrow> (Inl e, w1)
      | (Inr r, w1) \<Rightarrow>
          (case body_of r w1 of
             (res, w2) \<Rightarrow>
               (case exit_of r w2 of
                  (Inl e, w3) \<Rightarrow> (Inl e, w3)
                | (Inr u, w3) \<Rightarrow> (res, w3))))"

subsection \<open>The library calls\<close>

text \<open>\<^verbatim>\<open>open(name, mode)\<close>, \<^verbatim>\<open>json.load(f)\<close> and the exit of the file object.\<close>

definition open_file :: "env \<Rightarrow> string \<Rightarrow> string \<Rightarrow> file_content prog" where
  "open_file env name mode w =
     (let w1 = emit (Open name mode) w in
      case config_file env of
        Missing \<Rightarrow> (Inl (FileNotFoundError name), w1)
      | Unreadable \<Rightarrow> (Inl (PermissionError name), w1)
      | Content c \<Rightarrow> (Inr c, w1))"

definition json_load :: "file_content \<Rightarrow> config prog" where
  "json_load f w =
     (let w1 = emit JsonLoad w in
      case f of
        Undecodable \<Rightarrow> (Inl UnicodeDecodeError, w1)
      | NotJson \<Rightarrow> (Inl JSONDecodeError, w1)
      | Json v \<Rightarrow> (Inr v, w1))"

definition file_close :: "file_content \<Rightarrow> unit prog" where
  "file_close f w = (Inr (), emit FileClose w)"

text \<open>\<^verbatim>\<open>input(prompt)\<close>.\<close>

definition input_line :: "env \<Rightarrow> string \<Rightarrow> string prog" where
  "input_line env prompt w =
     (let w1 = emit (Input prompt) w in
      case stdin env of
        None \<Rightarrow> (Inl EOFError, w1)
      | Some line \<Rightarrow> (Inr line, w1))"

text \<open>
  \<^verbatim>\<open>subprocess.run(args, input=..., text=True, check=...)\<close>: spawns the child, feeds it
  the input, waits for it to exit and returns its exit status. The child's standard
  error is not captured. With \<^verbatim>\<open>check\<close> a non-zero status raises.
\<close>

definition subprocess_run :: "env \<Rightarrow> string list \<Rightarrow> string \<Rightarrow> bool \<Rightarrow> int prog" where
  "subprocess_run env args inp check w =
     (let w1 = emit (Run args inp) w in
      case mail env of
        None \<Rightarrow> (Inl (FileNotFoundError (case args of [] \<Rightarrow> [] | a # as \<Rightarrow> a)), w1)
      | Some (returncode, err) \<Rightarrow>
          if check \<and> returncode \<noteq> 0 then (Inl (CalledProcessError returncode), w1)
          else (Inr returncode, w1))"

text \<open>
  \<^verbatim>\<open>urlopen(url, context)\<close> performs the GET and allocates the response object; the exit
  of that object (it is its own context manager) closes it. A closed response has no
  body left to read.
\<close>

definition create_default_context :: ssl_context where
  "create_default_context = DefaultContext"

definition urlopen :: "env \<Rightarrow> string \<Rightarrow> ssl_context \<Rightarrow> nat prog" where
  "urlopen env url context w =
     (let w1 = emit (UrlOpen url context) w in
      case remote env of
        None \<Rightarrow> (Inl URLError, w1)
      | Some b \<Rightarrow>
          (Inr (length (responses w1)),
           w1\<lparr>responses := responses w1 @ [\<lparr>body = b, closed = False\<rparr>]\<rparr>))"

definition close_at :: "nat \<Rightarrow> response list \<Rightarrow> response list" where
  "close_at h rs = (if h < length rs then rs[h := (rs ! h)\<lparr>closed := True\<rparr>] else rs)"

definition response_close :: "nat \<Rightarrow> unit prog" where
  "response_close h w =
     (let w1 = emit (ResponseClose h) w in
      (Inr (), w1\<lparr>responses := close_at h (responses w1)\<rparr>))"

definition response_read :: "world \<Rightarrow> nat \<Rightarrow> string option" where
  "response_read w h =
     (if h < length (responses w) \<and> \<not> closed (responses w ! h)
      then Some (body (responses w ! h)) else None)"

text \<open>
  The database client. \<^verbatim>\<open>execute\<close> sends the query text with its parameters; the
  statement stays pending until \<^verbatim>\<open>commit\<close> makes it durable. Closing the connection
  drops what is pending.
\<close>

text \<open>
  \<^verbatim>\<open>pymysql.connect(**db_config)\<close>. The \<^verbatim>\<open>**\<close> needs a mapping: for any other value
  Python raises \<^verbatim>\<open>TypeError\<close> before the function is entered. For a mapping the function
  is called with its entries as keyword arguments, and raises what the environment says.
\<close>

definition is_mapping :: "config \<Rightarrow> bool" where
  "is_mapping db_config =
     (case db_config of
        JObj kwargs \<Rightarrow> True
      | JNull \<Rightarrow> False | JBool b \<Rightarrow> False | JNum n \<Rightarrow> False | JStr s \<Rightarrow> False
      | JArr vs \<Rightarrow> False)"

definition connect_outcome :: "env \<Rightarrow> config \<Rightarrow> error option" where
  "connect_outcome env db_config =
     (case db_config of
        JObj kwargs \<Rightarrow> connect_raises env kwargs
      | JNull \<Rightarrow> Some TypeError | JBool b \<Rightarrow> Some TypeError | JNum n \<Rightarrow> Some TypeError
      | JStr s \<Rightarrow> Some TypeError | JArr vs \<Rightarrow> Some TypeError)"

definition connect_ok :: "env \<Rightarrow> config \<Rightarrow> bool" where
  "connect_ok env db_config = (connect_outcome env db_config = None)"

definition pymysql_connect :: "env \<Rightarrow> config \<Rightarrow> unit prog" where
  "pymysql_connect env db_config w =
     (if is_mapping db_config
      then (let w1 = emit (Connect db_config) w in
            case connect_outcome env db_config of
              None \<Rightarrow> (Inr (), w1)
            | Some e \<Rightarrow> (Inl e, w1))
      else (Inl TypeError, w))"

definition connection_cursor :: "unit \<Rightarrow> unit prog" where
  "connection_cursor connection w = (Inr (), emit Cursor w)"

definition cursor_execute :: "env \<Rightarrow> unit \<Rightarrow> string \<Rightarrow> pyobj list \<Rightarrow> unit prog" where
  "cursor_execute env cursor q args w =
     (let w1 = emit (Execute q args) w in
      if execute_ok env then (Inr (), w1\<lparr>pending := pending w1 @ [(q, args)]\<rparr>)
      else (Inl DatabaseError, w1))"

definition connection_commit :: "env \<Rightarrow> unit \<Rightarrow> unit prog" where
  "connection_commit env connection w =
     (let w1 = emit Commit w in
      if commit_ok env
      then (Inr (), w1\<lparr>committed := committed w1 @ pending w1, pending := []\<rparr>)
      else (Inl DatabaseError, w1))"

definition cursor_close :: "unit \<Rightarrow> unit prog" where
  "cursor_close cursor w = (Inr (), emit CursorClose w)"

definition connection_close :: "unit \<Rightarrow> unit prog" where
  "connection_close connection w = (Inr (), (emit ConnectionClose w)\<lparr>pending := []\<rparr>)"

subsection \<open>The script\<close>

text \<open>
  \<^verbatim>\<open>with open("db_config.json", "r") as data: db_config = json.load(data)\<close>
\<close>

definition load_db_config :: "env \<Rightarrow> config prog" where
  "load_db_config env =
     with_stmt (open_file env ''db_config.json'' ''r'') file_close (\<lambda>data. json_load data)"

definition get_user_input :: "env \<Rightarrow> string prog" where
  "get_user_input env =
     andthen (input_line env ''Enter your name: '') (\<lambda>user_input.
     return_val user_input)"

definition send_email :: "env \<Rightarrow> string \<Rightarrow> string \<Rightarrow> string \<Rightarrow> unit prog" where
  "send_email env to subject body_text =
     andthen (subprocess_run env [''mail'', ''-s'', subject, to] body_text True) (\<lambda>completed.
     return_val ())"

text \<open>
  The \<^verbatim>\<open>return data\<close> stands inside the \<^verbatim>\<open>with\<close> block: the value returned is the
  reference to the response object, and the exit of the block closes that object on
  the way out.
\<close>

definition get_data :: "env \<Rightarrow> nat prog" where
  "get_data env =
     (let url = ''https://insecure-api.com/get-data'';
          context = create_default_context
      in with_stmt (urlopen env url context) response_close (\<lambda>data. return_val data))"

text \<open>The f-string of \<^verbatim>\<open>save_to_db\<close> has no replacement field: it is its own text.\<close>

definition query :: string where
  "query = ''INSERT INTO mytable (column1, column2) VALUES (%s, 'Another Value')''"

definition save_to_db :: "env \<Rightarrow> config \<Rightarrow> pyobj \<Rightarrow> unit prog" where
  "save_to_db env db_config data =
     andthen (pymysql_connect env db_config) (\<lambda>connection.
     andthen (connection_cursor connection) (\<lambda>cursor.
     andthen (cursor_execute env cursor query [data]) (\<lambda>u1.
     andthen (connection_commit env connection) (\<lambda>u2.
     andthen (cursor_close cursor) (\<lambda>u3.
     connection_close connection)))))"

text \<open>The block under \<^verbatim>\<open>if __name__ == '__main__'\<close>.\<close>

definition main :: "env \<Rightarrow> config \<Rightarrow> unit prog" where
  "main env db_config =
     andthen (get_user_input env) (\<lambda>user_input.
     andthen (get_data env) (\<lambda>data.
     andthen (save_to_db env db_config (Response data)) (\<lambda>u.
     send_email env ''admin@example.com'' ''User Input'' user_input)))"

text \<open>The module run as a script: the configuration is loaded, then the main block runs.\<close>

definition script :: "env \<Rightarrow> unit prog" where
  "script env = andthen (load_db_config env) (\<lambda>db_config. main env db_config)"

subsection \<open>Reading a trace\<close>

fun is_connect :: "event \<Rightarrow> bool" where
  "is_connect (Connect c) = True"
| "is_connect e = False"

fun is_open :: "event \<Rightarrow> bool" where
  "is_open (Open n m) = True"
| "is_open e = False"

fun is_run :: "event \<Rightarrow> bool" where
  "is_run (Run a b) = True"
| "is_run e = False"

text \<open>The statements sent to the server, in order.\<close>

fun executed :: "event list \<Rightarrow> statement list" where
  "executed [] = []"
| "executed (Execute q args # es) = (q, args) # executed es"
| "executed (e # es) = executed es"

text \<open>The step of the main block an event belongs to (0 for the loading of the module).\<close>

fun step_of :: "event \<Rightarrow> nat" where
  "step_of (Input p) = 1"
| "step_of (UrlOpen u c) = 2"
| "step_of (ResponseClose h) = 2"
| "step_of (Connect c) = 3"
| "step_of Cursor = 3"
| "step_of (Execute q a) = 3"
| "step_of Commit = 3"
| "step_of CursorClose = 3"
| "step_of ConnectionClose = 3"
| "step_of (Run a b) = 4"
| "step_of e = 0"

text \<open>An event with the text fed to the mail child blanked out.\<close>

fun erase_body :: "event \<Rightarrow> event" where
  "erase_body (Run a b) = Run a []"
| "erase_body e = e"

subsection \<open>Example runs\<close>

text \<open>
  A configuration, and an environment in which every call succeeds. Its database client
  knows the keyword parameters of \<^verbatim>\<open>pymysql.connect\<close> and raises \<^verbatim>\<open>TypeError\<close> for any
  other keyword; its server accepts the parameters of \<open>cfg0\<close> and refuses all others.
\<close>

definition cfg0 :: config where
  "cfg0 = JObj [(''host'', JStr ''localhost''), (''user'', JStr ''admin''),
                (''password'', JStr ''secret''), (''database'', JStr ''mydb'')]"

definition connect_keywords :: "string list" where
  "connect_keywords =
     [''user'', ''password'', ''host'', ''database'', ''unix_socket'', ''port'', ''charset'',
      ''collation'', ''sql_mode'', ''read_default_file'', ''conv'', ''use_unicode'',
      ''client_flag'', ''cursorclass'', ''init_command'', ''connect_timeout'',
      ''read_default_group'', ''autocommit'', ''local_infile'', ''max_allowed_packet'',
      ''defer_connect'', ''auth_plugin_map'', ''read_timeout'', ''write_timeout'',
      ''bind_address'', ''binary_prefix'', ''program_name'', ''server_public_key'', ''ssl'',
      ''ssl_ca'', ''ssl_cert'', ''ssl_disabled'', ''ssl_key'', ''ssl_key_password'',
      ''ssl_verify_cert'', ''ssl_verify_identity'', ''compress'', ''named_pipe'', ''passwd'',
      ''db'']"

definition example_connect :: "(string \<times> json) list \<Rightarrow> error option" where
  "example_connect kwargs =
     (if JObj kwargs = cfg0 then None
      else if list_all (\<lambda>k. k \<in> set connect_keywords) (map fst kwargs)
      then Some DatabaseError
      else Some TypeError)"

definition env_ok :: env where
  "env_ok = \<lparr>config_file = Content (Json cfg0), stdin = Some ''Ada'',
     remote = Some ''payload'', connect_raises = example_connect, execute_ok = True,
     commit_ok = True, mail = Some (0, [])\<rparr>"

text \<open>
  Connection parameters that name a host the server refuses, and a configuration file
  whose key \<^verbatim>\<open>hostname\<close> is no keyword of \<^verbatim>\<open>pymysql.connect\<close>.
\<close>

definition cfg_refused :: config where
  "cfg_refused = JObj [(''host'', JStr ''nowhere''), (''user'', JStr ''admin'')]"

definition cfg_hostname :: config where
  "cfg_hostname = JObj [(''hostname'', JStr ''localhost''), (''user'', JStr ''admin'')]"

section \<open>Basic facts\<close>

text \<open>The connection call, by what the environment says of the parameters.\<close>

lemma pymysql_connect_cases:
  "pymysql_connect env cfg w =
     (case connect_outcome env cfg of
        None \<Rightarrow> (Inr (), emit (Connect cfg) w)
      | Some e \<Rightarrow> (Inl e, if is_mapping cfg then emit (Connect cfg) w else w))"
  by (cases cfg)
     (auto simp: pymysql_connect_def connect_outcome_def is_mapping_def Let_def
       split: option.splits)

lemma connect_outcome_None_mapping: "connect_outcome env cfg = None \<Longrightarrow> is_mapping cfg"
  by (cases cfg) (simp_all add: connect_outcome_def is_mapping_def)

lemmas lib_defs = emit_def return_val_def andthen_def with_stmt_def open_file_def
  json_load_def file_close_def input_line_def subprocess_run_def create_default_context_def
  urlopen_def close_at_def response_close_def response_read_def pymysql_connect_cases
  connection_cursor_def cursor_execute_def connection_commit_def cursor_close_def
  connection_close_def

lemmas script_defs = load_db_config_def get_user_input_def send_email_def get_data_def
  save_to_db_def main_def script_def

lemmas example_defs = env_ok_def cfg0_def example_connect_def connect_outcome_def
  is_mapping_def init_world_def

lemma executed_append: "executed (xs @ ys) = executed xs @ executed ys"
  by (induction xs rule: executed.induct) simp_all

text \<open>Each function of the script, by what the environment answers.\<close>

lemma load_db_config_cases:
  "load_db_config env w =
    (case config_file env of
       Missing \<Rightarrow>
         (Inl (FileNotFoundError ''db_config.json''), emit (Open ''db_config.json'' ''r'') w)
     | Unreadable \<Rightarrow>
         (Inl (PermissionError ''db_config.json''), emit (Open ''db_config.json'' ''r'') w)
     | Content Undecodable \<Rightarrow>
         (Inl UnicodeDecodeError,
          emit FileClose (emit JsonLoad (emit (Open ''db_config.json'' ''r'') w)))
     | Content NotJson \<Rightarrow>
         (Inl JSONDecodeError,
          emit FileClose (emit JsonLoad (emit (Open ''db_config.json'' ''r'') w)))
     | Content (Json c) \<Rightarrow>
         (Inr c, emit FileClose (emit JsonLoad (emit (Open ''db_config.json'' ''r'') w))))"
  by (simp add: load_db_config_def with_stmt_def open_file_def json_load_def file_close_def
      Let_def split: config_file.splits file_content.splits)

lemma get_user_input_cases:
  "get_user_input env w =
     (case stdin env of
        None \<Rightarrow> (Inl EOFError, emit (Input ''Enter your name: '') w)
      | Some u \<Rightarrow> (Inr u, emit (Input ''Enter your name: '') w))"
  by (simp add: get_user_input_def input_line_def andthen_def return_val_def Let_def
      split: option.splits)

lemma get_data_cases:
  "get_data env w =
     (case remote env of
        None \<Rightarrow>
          (Inl URLError, emit (UrlOpen ''https://insecure-api.com/get-data'' DefaultContext) w)
      | Some b \<Rightarrow>
          (Inr (length (responses w)),
           w\<lparr>trace := trace w @
                [UrlOpen ''https://insecure-api.com/get-data'' DefaultContext,
                 ResponseClose (length (responses w))],
             responses := responses w @ [\<lparr>body = b, closed = True\<rparr>]\<rparr>))"
  by (simp add: get_data_def with_stmt_def urlopen_def response_close_def close_at_def
      create_default_context_def return_val_def emit_def Let_def split: option.splits)

lemma save_to_db_cases:
  "save_to_db env cfg data w =
     (case connect_outcome env cfg of
        Some e \<Rightarrow> (Inl e, if is_mapping cfg then emit (Connect cfg) w else w)
      | None \<Rightarrow>
          if \<not> execute_ok env
          then (Inl DatabaseError,
                w\<lparr>trace := trace w @ [Connect cfg, Cursor, Execute query [data]]\<rparr>)
          else if \<not> commit_ok env
          then (Inl DatabaseError,
                w\<lparr>trace := trace w @ [Connect cfg, Cursor, Execute query [data], Commit],
                  pending := pending w @ [(query, [data])]\<rparr>)
          else (Inr (),
                w\<lparr>trace := trace w @ [Connect cfg, Cursor, Execute query [data], Commit,
                                        CursorClose, ConnectionClose],
                  pending := [],
                  committed := committed w @ pending w @ [(query, [data])]\<rparr>))"
  by (simp add: save_to_db_def pymysql_connect_cases connection_cursor_def cursor_execute_def
      connection_commit_def cursor_close_def connection_close_def andthen_def emit_def Let_def
      split: option.splits)

lemma send_email_cases:
  "send_email env to subject b w =
     (case mail env of
        None \<Rightarrow> (Inl (FileNotFoundError ''mail''), emit (Run [''mail'', ''-s'', subject, to] b) w)
      | Some (returncode, err) \<Rightarrow>
          (if returncode = 0 then Inr () else Inl (CalledProcessError returncode),
           emit (Run [''mail'', ''-s'', subject, to] b) w))"
  by (simp add: send_email_def subprocess_run_def andthen_def return_val_def Let_def
      split: option.splits)

text \<open>
  What a function returns and what it leaves in each part of the world, read apart: in a
  sequence each part of the final world is then found from the outside in.
\<close>

lemma andthen_fst:
  "fst (andthen m f w) = (case fst (m w) of Inl e \<Rightarrow> Inl e | Inr a \<Rightarrow> fst (f a (snd (m w))))"
  by (simp add: andthen_def split: prod.splits sum.splits)

lemma andthen_snd:
  "snd (andthen m f w) =
     (case fst (m w) of Inl e \<Rightarrow> snd (m w) | Inr a \<Rightarrow> snd (f a (snd (m w))))"
  by (simp add: andthen_def split: prod.splits sum.splits)

lemma emit_parts:
  "trace (emit e w) = trace w @ [e]" "responses (emit e w) = responses w"
  "pending (emit e w) = pending w" "committed (emit e w) = committed w"
  by (simp_all add: emit_def)

lemma get_user_input_parts:
  "fst (get_user_input env w) = (case stdin env of None \<Rightarrow> Inl EOFError | Some u \<Rightarrow> Inr u)"
  "snd (get_user_input env w) = emit (Input ''Enter your name: '') w"
  by (simp_all add: get_user_input_cases split: option.splits)

lemma get_data_parts:
  "fst (get_data env w) =
     (case remote env of None \<Rightarrow> Inl URLError | Some b \<Rightarrow> Inr (length (responses w)))"
  "trace (snd (get_data env w)) =
     trace w @ UrlOpen ''https://insecure-api.com/get-data'' DefaultContext #
       (case remote env of None \<Rightarrow> [] | Some b \<Rightarrow> [ResponseClose (length (responses w))])"
  "responses (snd (get_data env w)) =
     responses w @ (case remote env of None \<Rightarrow> [] | Some b \<Rightarrow> [\<lparr>body = b, closed = True\<rparr>])"
  "pending (snd (get_data env w)) = pending w"
  "committed (snd (get_data env w)) = committed w"
  by (simp_all add: get_data_cases emit_def split: option.splits)

lemma save_to_db_parts:
  "fst (save_to_db env cfg data w) =
     (case connect_outcome env cfg of
        Some e \<Rightarrow> Inl e
      | None \<Rightarrow> if execute_ok env \<and> commit_ok env then Inr () else Inl DatabaseError)"
  "trace (snd (save_to_db env cfg data w)) =
     trace w @
       (case connect_outcome env cfg of
          Some e \<Rightarrow> if is_mapping cfg then [Connect cfg] else []
        | None \<Rightarrow>
            [Connect cfg, Cursor, Execute query [data]] @
              (if execute_ok env
               then Commit # (if commit_ok env then [CursorClose, ConnectionClose] else [])
               else []))"
  "responses (snd (save_to_db env cfg data w)) = responses w"
  "pending (snd (save_to_db env cfg data w)) =
     (case connect_outcome env cfg of
        Some e \<Rightarrow> pending w
      | None \<Rightarrow>
          if execute_ok env
          then (if commit_ok env then [] else pending w @ [(query, [data])])
          else pending w)"
  "committed (snd (save_to_db env cfg data w)) =
     (case connect_outcome env cfg of
        Some e \<Rightarrow> committed w
      | None \<Rightarrow>
          if execute_ok env \<and> commit_ok env
          then committed w @ pending w @ [(query, [data])]
          else committed w)"
  by (simp_all add: save_to_db_cases emit_def split: option.splits)

lemma send_email_parts:
  "fst (send_email env to subject b w) =
     (case mail env of
        None \<Rightarrow> Inl (FileNotFoundError ''mail'')
      | Some (returncode, err) \<Rightarrow>
          if returncode = 0 then Inr () else Inl (CalledProcessError returncode))"
  "snd (send_email env to subject b w) = emit (Run [''mail'', ''-s'', subject, to] b) w"
  by (simp_all add: send_email_cases split: option.splits prod.splits)

lemma connect_outcome_stdin:
  "connect_outcome (env\<lparr>stdin := line\<rparr>) cfg = connect_outcome env cfg"
  by (cases cfg) (simp_all add: connect_outcome_def)

lemmas main_parts = main_def andthen_fst andthen_snd emit_parts get_user_input_parts
  get_data_parts save_to_db_parts send_email_parts

text \<open>The main block opens no file, and connects with the configuration it was given.\<close>

lemma main_no_open:
  "filter is_open (trace (snd (main env cfg w))) = filter is_open (trace w)"
  by (simp add: main_parts split: option.splits sum.splits prod.splits)

lemma main_connect:
  "filter is_connect (trace (snd (main env cfg w))) =
     filter is_connect (trace w) @
       (if stdin env \<noteq> None \<and> remote env \<noteq> None \<and> is_mapping cfg then [Connect cfg] else [])"
  by (auto simp: main_parts dest: connect_outcome_None_mapping
      split: option.splits sum.splits prod.splits)

section \<open>Persistence\<close>

text \<open>
  C1. The claim: for every valid configuration, \<^verbatim>\<open>save_to_db\<close> opens one connection and
  closes it and its cursor exactly once on every exit path, also when the execution of
  the statement or the commit raises. The code closes both by two plain calls at the end
  of the function, with no \<^verbatim>\<open>try\<close>/\<^verbatim>\<open>finally\<close> and no \<^verbatim>\<open>with\<close>: an exception of
  \<^verbatim>\<open>execute\<close> or of \<^verbatim>\<open>commit\<close> leaves the function before them. The theorem runs the
  function in three environments: when all succeeds the connection and the cursor are
  closed once; when the statement is refused, and when the commit is refused, the
  connection has been opened and neither close call is made.
\<close>

theorem save_to_db_error_skips_close:
  "save_to_db env_ok cfg0 (Response 0) init_world =
     (Inr (),
      init_world\<lparr>trace := [Connect cfg0, Cursor, Execute query [Response 0], Commit,
                           CursorClose, ConnectionClose],
                 committed := [(query, [Response 0])]\<rparr>) \<and>
   save_to_db (env_ok\<lparr>execute_ok := False\<rparr>) cfg0 (Response 0) init_world =
     (Inl DatabaseError,
      init_world\<lparr>trace := [Connect cfg0, Cursor, Execute query [Response 0]]\<rparr>) \<and>
   save_to_db (env_ok\<lparr>commit_ok := False\<rparr>) cfg0 (Response 0) init_world =
     (Inl DatabaseError,
      init_world\<lparr>trace := [Connect cfg0, Cursor, Execute query [Response 0], Commit],
                 pending := [(query, [Response 0])]\<rparr>)"
  by (simp add: save_to_db_def lib_defs example_defs Let_def)

text \<open>
  C2. Whatever value is handed to \<^verbatim>\<open>save_to_db\<close> (the empty string and strings with SQL
  metacharacters included), in every environment, the statements it sends to the server
  are none (no connection was made) or exactly one, whose query text is the fixed
  string of the source and whose only bound parameter is the value: the value never
  enters the query text.
\<close>

theorem save_to_db_query_is_constant:
  "executed (trace (snd (save_to_db env cfg data w))) =
     executed (trace w) @
       (if connect_ok env cfg
        then [(''INSERT INTO mytable (column1, column2) VALUES (%s, 'Another Value')'',
               [data])]
        else [])"
  by (simp add: save_to_db_cases connect_ok_def emit_def executed_append query_def
      split: option.splits)

text \<open>
  C5. The claim: with invalid connection parameters \<^verbatim>\<open>save_to_db\<close> raises a database
  error before any row is inserted, and the notification is never invoked. The second and
  third part hold; the class of the error does not: the script hands the configuration to
  \<^verbatim>\<open>pymysql.connect(**db_config)\<close> unchecked, so parameters that are no arguments of that
  function (here the key \<^verbatim>\<open>hostname\<close>) raise \<^verbatim>\<open>TypeError\<close>, which is no database
  error.
\<close>

theorem connect_error_not_database_error:
  "\<not> connect_ok env_ok cfg_hostname \<and>
   save_to_db env_ok cfg_hostname (Response 0) init_world =
     (Inl TypeError, init_world\<lparr>trace := [Connect cfg_hostname]\<rparr>) \<and>
   fst (save_to_db env_ok cfg_hostname (Response 0) init_world) \<noteq> Inl DatabaseError"
  by (simp add: save_to_db_def lib_defs example_defs connect_ok_def cfg_hostname_def
      connect_keywords_def Let_def)

text \<open>
  C5, as the code has it. Whenever the connection call raises for the given parameters
  (the database error of a server that refuses them, or \<^verbatim>\<open>TypeError\<close> or
  \<^verbatim>\<open>ValueError\<close> for parameters that are no arguments of the call),
  \<^verbatim>\<open>save_to_db\<close> raises that same error at the connection call, with no statement sent
  and the pending and the committed statements as they were. The main block then ends
  with an error (that error, when input and fetch succeeded), the mail program is never
  run, and the database is unchanged.
\<close>

theorem connect_error_propagates:
  "connect_outcome env cfg = Some e \<Longrightarrow>
     save_to_db env cfg data w =
       (Inl e, if is_mapping cfg then emit (Connect cfg) w else w) \<and>
     (\<exists>e'. fst (main env cfg w) = Inl e') \<and>
     (stdin env \<noteq> None \<and> remote env \<noteq> None \<longrightarrow> fst (main env cfg w) = Inl e) \<and>
     filter is_run (trace (snd (main env cfg w))) = filter is_run (trace w) \<and>
     executed (trace (snd (main env cfg w))) = executed (trace w) \<and>
     pending (snd (main env cfg w)) = pending w \<and>
     committed (snd (main env cfg w)) = committed w"
  by (auto simp: save_to_db_cases main_parts executed_append
      split: option.splits sum.splits prod.splits)

theorem connect_error_propagates_witness:
  "connect_outcome env_ok cfg_refused = Some DatabaseError \<and>
   save_to_db env_ok cfg_refused (Response 0) init_world =
     (Inl DatabaseError, emit (Connect cfg_refused) init_world) \<and>
   fst (main env_ok cfg_refused init_world) = Inl DatabaseError \<and>
   filter is_run (trace (snd (main env_ok cfg_refused init_world))) = [] \<and>
   committed (snd (main env_ok cfg_refused init_world)) = [] \<and>
   connect_outcome env_ok cfg_hostname = Some TypeError \<and>
   fst (main env_ok cfg_hostname init_world) = Inl TypeError \<and>
   filter is_run (trace (snd (main env_ok cfg_hostname init_world))) = [] \<and>
   committed (snd (main env_ok cfg_hostname init_world)) = []"
proof -
  have refused: "connect_outcome env_ok cfg_refused = Some DatabaseError"
    by (simp add: example_defs cfg_refused_def connect_keywords_def)
  have hostname: "connect_outcome env_ok cfg_hostname = Some TypeError"
    by (simp add: example_defs cfg_hostname_def connect_keywords_def)
  have mapping: "is_mapping cfg_refused"
    by (simp add: is_mapping_def cfg_refused_def)
  have given: "stdin env_ok \<noteq> None" "remote env_ok \<noteq> None"
      "trace init_world = []" "committed init_world = []"
    by (simp_all add: env_ok_def init_world_def)
  show ?thesis
    using connect_error_propagates [OF refused, of "Response 0" init_world]
      connect_error_propagates [OF hostname, of "Response 0" init_world]
      refused hostname mapping given
    by simp
qed

section \<open>Remote fetch\<close>

text \<open>
  C3. The claim: \<^verbatim>\<open>get_data\<close> performs one GET to the fixed HTTPS address and, on
  success, returns a handle from which the body can still be read. The first half holds:
  the only request is one \<^verbatim>\<open>urlopen\<close> of the fixed address with the default context.
  The second half fails: the \<^verbatim>\<open>return\<close> stands inside the \<^verbatim>\<open>with\<close> block, so the
  exit of the block closes the response before the caller receives it. The theorem runs
  the function where the endpoint serves \<^verbatim>\<open>payload\<close>: right after \<^verbatim>\<open>urlopen\<close> the
  body can be read, after \<^verbatim>\<open>get_data\<close> nothing can.
\<close>

theorem get_data_returns_closed_response:
  "get_data env_ok init_world =
     (Inr 0,
      init_world\<lparr>trace := [UrlOpen ''https://insecure-api.com/get-data'' DefaultContext,
                           ResponseClose 0],
                 responses := [\<lparr>body = ''payload'', closed = True\<rparr>]\<rparr>) \<and>
   response_read (snd (get_data env_ok init_world)) 0 = None \<and>
   response_read (snd (urlopen env_ok ''https://insecure-api.com/get-data'' DefaultContext
                         init_world)) 0 = Some ''payload''"
  by (simp add: get_data_def lib_defs env_ok_def init_world_def Let_def)

section \<open>Notification\<close>

text \<open>
  C7. \<^verbatim>\<open>send_email\<close> returns only with the exit status of the mail child: whenever the
  child was spawned and exited with status \<open>returncode\<close>, whatever it wrote to its
  standard error, the call succeeds when the status is zero and raises
  \<^verbatim>\<open>CalledProcessError\<close> with that status otherwise, after the one run of
  \<^verbatim>\<open>mail -s subject to\<close> fed with the body.
\<close>

theorem send_email_exit_status:
  "mail env = Some (returncode, err) \<Longrightarrow>
   send_email env to subject b w =
     (if returncode = 0 then Inr () else Inl (CalledProcessError returncode),
      emit (Run [''mail'', ''-s'', subject, to] b) w)"
  by (simp add: send_email_def subprocess_run_def andthen_def return_val_def Let_def)

theorem send_email_exit_status_witness:
  "mail (env_ok\<lparr>mail := Some (1, ''mail: warning'')\<rparr>) = Some (1, ''mail: warning'') \<and>
   fst (send_email (env_ok\<lparr>mail := Some (1, ''mail: warning'')\<rparr>)
          ''admin@example.com'' ''User Input'' ''Ada'' init_world) = Inl (CalledProcessError 1) \<and>
   fst (send_email (env_ok\<lparr>mail := Some (1, [])\<rparr>)
          ''admin@example.com'' ''User Input'' ''Ada'' init_world) = Inl (CalledProcessError 1) \<and>
   fst (send_email (env_ok\<lparr>mail := Some (0, ''mail: warning'')\<rparr>)
          ''admin@example.com'' ''User Input'' ''Ada'' init_world) = Inr ()"
  using send_email_exit_status
      [of "env_ok\<lparr>mail := Some (1, ''mail: warning'')\<rparr>" 1 "''mail: warning''"
          "''admin@example.com''" "''User Input''" "''Ada''" init_world]
    send_email_exit_status
      [of "env_ok\<lparr>mail := Some (1, [])\<rparr>" 1 "[]"
          "''admin@example.com''" "''User Input''" "''Ada''" init_world]
    send_email_exit_status
      [of "env_ok\<lparr>mail := Some (0, ''mail: warning'')\<rparr>" 0 "''mail: warning''"
          "''admin@example.com''" "''User Input''" "''Ada''" init_world]
  by simp

section \<open>The main block\<close>

text \<open>
  C4. Whenever the main block ends without an exception, the calls it made are, in this
  order and with nothing between them: the prompt for the input, the fetch (request and
  close of the response), the persistence (connect, cursor, execute, commit, the two
  closes) and the notification with the captured input. Every event of a step precedes
  every event of the next step, and each of the four steps is there.
\<close>

theorem main_runs_steps_in_order:
  "main env cfg w = (Inr (), w') \<Longrightarrow>
   \<exists>u. stdin env = Some u \<and>
     trace w' = trace w @
       [Input ''Enter your name: '',
        UrlOpen ''https://insecure-api.com/get-data'' DefaultContext,
        ResponseClose (length (responses w)),
        Connect cfg, Cursor, Execute query [Response (length (responses w))], Commit,
        CursorClose, ConnectionClose,
        Run [''mail'', ''-s'', ''User Input'', ''admin@example.com''] u] \<and>
     map step_of (drop (length (trace w)) (trace w')) = [1, 2, 2, 3, 3, 3, 3, 3, 3, 4]"
proof -
  assume run: "main env cfg w = (Inr (), w')"
  then have ok: "fst (main env cfg w) = Inr ()" and w': "w' = snd (main env cfg w)"
    by simp_all
  from ok show ?thesis
    unfolding w'
    by (auto simp: main_parts split: option.splits sum.splits prod.splits if_splits)
qed

theorem main_runs_steps_in_order_witness:
  "fst (main env_ok cfg0 init_world) = Inr () \<and>
   (\<exists>u. stdin env_ok = Some u \<and>
     trace (snd (main env_ok cfg0 init_world)) =
       [Input ''Enter your name: '',
        UrlOpen ''https://insecure-api.com/get-data'' DefaultContext,
        ResponseClose 0,
        Connect cfg0, Cursor, Execute query [Response 0], Commit,
        CursorClose, ConnectionClose,
        Run [''mail'', ''-s'', ''User Input'', ''admin@example.com''] u] \<and>
     map step_of (trace (snd (main env_ok cfg0 init_world))) = [1, 2, 2, 3, 3, 3, 3, 3, 3, 4])"
proof -
  have ok: "fst (main env_ok cfg0 init_world) = Inr ()"
    by (simp add: script_defs lib_defs example_defs Let_def)
  then have run: "main env_ok cfg0 init_world = (Inr (), snd (main env_ok cfg0 init_world))"
    by (metis prod.collapse)
  have start: "trace init_world = []" "responses init_world = []"
    by (simp_all add: init_world_def)
  from main_runs_steps_in_order [OF run] ok show ?thesis
    by (simp add: start)
qed

text \<open>
  C6. The claim: in the run where the line typed is empty and the fetch yields the empty
  payload, one row is inserted with the first column bound to the empty payload and the
  second to the literal \<^verbatim>\<open>'Another Value'\<close>, and the notification is then attempted with
  the empty body. The code inserts one row with that literal and attempts that
  notification, but what it binds to the first column is not the payload: \<^verbatim>\<open>get_data\<close>
  returns the response object itself, closed by its \<^verbatim>\<open>with\<close> block, never the bytes
  read from it. The theorem runs the script where every call succeeds, the line typed is
  empty and the endpoint serves the empty body: the parameter bound is the reference to
  the closed response, not the empty bytes or the empty text, and nothing can be read
  from that response.
\<close>

theorem empty_payload_run_binds_closed_response:
  "script (env_ok\<lparr>stdin := Some [], remote := Some []\<rparr>) init_world =
     (Inr (),
      init_world\<lparr>trace :=
          [Open ''db_config.json'' ''r'', JsonLoad, FileClose,
           Input ''Enter your name: '',
           UrlOpen ''https://insecure-api.com/get-data'' DefaultContext,
           ResponseClose 0,
           Connect cfg0, Cursor,
           Execute ''INSERT INTO mytable (column1, column2) VALUES (%s, 'Another Value')''
             [Response 0],
           Commit, CursorClose, ConnectionClose,
           Run [''mail'', ''-s'', ''User Input'', ''admin@example.com''] []],
        responses := [\<lparr>body = [], closed = True\<rparr>],
        committed :=
          [(''INSERT INTO mytable (column1, column2) VALUES (%s, 'Another Value')'',
            [Response 0])]\<rparr>) \<and>
   committed (snd (script (env_ok\<lparr>stdin := Some [], remote := Some []\<rparr>) init_world)) \<noteq>
     [(''INSERT INTO mytable (column1, column2) VALUES (%s, 'Another Value')'', [Bytes []])] \<and>
   committed (snd (script (env_ok\<lparr>stdin := Some [], remote := Some []\<rparr>) init_world)) \<noteq>
     [(''INSERT INTO mytable (column1, column2) VALUES (%s, 'Another Value')'', [Str []])] \<and>
   response_read (snd (script (env_ok\<lparr>stdin := Some [], remote := Some []\<rparr>) init_world)) 0
     = None"
  by (simp add: script_defs lib_defs example_defs query_def Let_def)

text \<open>
  C8. When input, fetch and persistence have succeeded, the row is committed at the end
  of the persistence step, and the notification, whichever way it ends, is the only thing
  the main block still does: it is one run of the mail program, the outcome of the main
  block is its outcome, and the committed and the pending statements are after it what
  they were before it.
\<close>

theorem committed_row_survives_notification:
  "get_user_input env w = (Inr u, w1) \<Longrightarrow> get_data env w1 = (Inr h, w2) \<Longrightarrow>
   save_to_db env cfg (Response h) w2 = (Inr (), w3) \<Longrightarrow>
   send_email env ''admin@example.com'' ''User Input'' u w3 = (r, w4) \<Longrightarrow>
   main env cfg w = (r, w4) \<and>
   committed w3 = committed w2 @ pending w2 @ [(query, [Response h])] \<and>
   committed w4 = committed w3 \<and> pending w4 = pending w3 \<and>
   trace w4 = trace w3 @ [Run [''mail'', ''-s'', ''User Input'', ''admin@example.com''] u]"
proof -
  assume s1: "get_user_input env w = (Inr u, w1)" and s2: "get_data env w1 = (Inr h, w2)"
    and s3: "save_to_db env cfg (Response h) w2 = (Inr (), w3)"
    and s4: "send_email env ''admin@example.com'' ''User Input'' u w3 = (r, w4)"
  have run: "main env cfg w = (r, w4)"
    by (simp add: main_def andthen_def s1 s2 s3 s4)
  have row: "committed w3 = committed w2 @ pending w2 @ [(query, [Response h])]"
    using s3 by (auto simp: save_to_db_cases split: option.splits if_splits)
  have "w4 = snd (send_email env ''admin@example.com'' ''User Input'' u w3)"
    by (simp add: s4)
  then have mail: "w4 = emit (Run [''mail'', ''-s'', ''User Input'', ''admin@example.com''] u) w3"
    by (simp add: send_email_parts)
  show ?thesis
    using run row by (simp add: mail emit_parts)
qed

theorem committed_row_survives_notification_witness:
  "main (env_ok\<lparr>mail := None\<rparr>) cfg0 init_world =
     (Inl (FileNotFoundError ''mail''),
      init_world\<lparr>trace :=
          [Input ''Enter your name: '',
           UrlOpen ''https://insecure-api.com/get-data'' DefaultContext,
           ResponseClose 0,
           Connect cfg0, Cursor, Execute query [Response 0], Commit,
           CursorClose, ConnectionClose,
           Run [''mail'', ''-s'', ''User Input'', ''admin@example.com''] ''Ada''],
        responses := [\<lparr>body = ''payload'', closed = True\<rparr>],
        committed := [(query, [Response 0])]\<rparr>)"
proof -
  let ?e = "env_ok\<lparr>mail := None\<rparr>"
  let ?w1 = "snd (get_user_input ?e init_world)"
  let ?w2 = "snd (get_data ?e ?w1)"
  let ?w3 = "snd (save_to_db ?e cfg0 (Response 0) ?w2)"
  let ?r = "fst (send_email ?e ''admin@example.com'' ''User Input'' ''Ada'' ?w3)"
  let ?w4 = "snd (send_email ?e ''admin@example.com'' ''User Input'' ''Ada'' ?w3)"
  have s1: "get_user_input ?e init_world = (Inr ''Ada'', ?w1)"
    by (simp add: get_user_input_def lib_defs env_ok_def Let_def)
  have s2: "get_data ?e ?w1 = (Inr 0, ?w2)"
    by (simp add: get_user_input_def get_data_def lib_defs env_ok_def init_world_def Let_def)
  have s3: "save_to_db ?e cfg0 (Response 0) ?w2 = (Inr (), ?w3)"
    by (simp add: save_to_db_def lib_defs example_defs Let_def)
  have s4: "send_email ?e ''admin@example.com'' ''User Input'' ''Ada'' ?w3 = (?r, ?w4)"
    by simp
  have "main ?e cfg0 init_world = (?r, ?w4)"
    using committed_row_survives_notification [OF s1 s2 s3 s4] by simp
  then show ?thesis
    by (simp add: script_defs lib_defs example_defs Let_def)
qed

text \<open>
  C10. Two runs of the main block that differ only in the line typed at the prompt make
  the same calls, but for the text fed to the mail child: the fetch request, the
  statements sent with their parameters, the response objects and the pending and the
  committed statements are the same. The line typed appears in the notification only,
  which runs exactly when fetch and persistence succeeded.
\<close>

theorem database_write_independent_of_user_input:
  "map erase_body (trace (snd (main (env\<lparr>stdin := Some u1\<rparr>) cfg w))) =
     map erase_body (trace (snd (main (env\<lparr>stdin := Some u2\<rparr>) cfg w))) \<and>
   executed (trace (snd (main (env\<lparr>stdin := Some u1\<rparr>) cfg w))) =
     executed (trace (snd (main (env\<lparr>stdin := Some u2\<rparr>) cfg w))) \<and>
   responses (snd (main (env\<lparr>stdin := Some u1\<rparr>) cfg w)) =
     responses (snd (main (env\<lparr>stdin := Some u2\<rparr>) cfg w)) \<and>
   pending (snd (main (env\<lparr>stdin := Some u1\<rparr>) cfg w)) =
     pending (snd (main (env\<lparr>stdin := Some u2\<rparr>) cfg w)) \<and>
   committed (snd (main (env\<lparr>stdin := Some u1\<rparr>) cfg w)) =
     committed (snd (main (env\<lparr>stdin := Some u2\<rparr>) cfg w)) \<and>
   filter is_run (trace (snd (main (env\<lparr>stdin := Some u1\<rparr>) cfg w))) =
     filter is_run (trace w) @
       (if fst (andthen (get_data env) (\<lambda>data. save_to_db env cfg (Response data)) w)
             = Inr ()
        then [Run [''mail'', ''-s'', ''User Input'', ''admin@example.com''] u1] else [])"
  by (simp add: main_parts connect_outcome_stdin executed_append
      split: option.splits sum.splits prod.splits)

section \<open>Configuration\<close>

text \<open>
  C9. The claim: the configuration is loaded once at the start, never changed, and the
  process fails at once, before any of the four steps, when the file is missing or
  malformed. The last part fails for a file that is JSON but no configuration: the script
  keeps whatever \<^verbatim>\<open>json.load\<close> returns without looking at it. The theorem runs the
  script on a file holding the list \<^verbatim>\<open>[1, 2]\<close>: the loading succeeds, the input is
  captured and the data fetched, and only the connection call of the third step raises
  \<^verbatim>\<open>TypeError\<close>.
\<close>

theorem non_mapping_config_fails_late:
  "script (env_ok\<lparr>config_file := Content (Json (JArr [JNum 1, JNum 2]))\<rparr>) init_world =
     (Inl TypeError,
      init_world\<lparr>trace :=
          [Open ''db_config.json'' ''r'', JsonLoad, FileClose,
           Input ''Enter your name: '',
           UrlOpen ''https://insecure-api.com/get-data'' DefaultContext,
           ResponseClose 0],
        responses := [\<lparr>body = ''payload'', closed = True\<rparr>]\<rparr>) \<and>
   map step_of (trace (snd (script
       (env_ok\<lparr>config_file := Content (Json (JArr [JNum 1, JNum 2]))\<rparr>) init_world))) =
     [0, 0, 0, 1, 2, 2]"
  by (simp add: script_defs lib_defs example_defs Let_def)

text \<open>
  C9, as the code has it. The script opens \<^verbatim>\<open>db_config.json\<close> exactly once, before
  anything else. When the file is missing or unreadable the run ends there; when its
  content is no text or no JSON the run ends with the decoding error after the file is
  closed: in these cases none of the four steps has made a call. When the content is a
  JSON value the main block runs next with exactly that value, whatever it is; it opens
  no file again, and the connection it attempts (once input and fetch succeeded, and if
  the value is a mapping) is made with exactly that value.
\<close>

theorem config_loaded_once:
  "(config_file env = Missing \<longrightarrow>
      script env w =
        (Inl (FileNotFoundError ''db_config.json''),
         emit (Open ''db_config.json'' ''r'') w)) \<and>
   (config_file env = Unreadable \<longrightarrow>
      script env w =
        (Inl (PermissionError ''db_config.json''),
         emit (Open ''db_config.json'' ''r'') w)) \<and>
   (config_file env = Content Undecodable \<longrightarrow>
      script env w =
        (Inl UnicodeDecodeError,
         emit FileClose (emit JsonLoad (emit (Open ''db_config.json'' ''r'') w)))) \<and>
   (config_file env = Content NotJson \<longrightarrow>
      script env w =
        (Inl JSONDecodeError,
         emit FileClose (emit JsonLoad (emit (Open ''db_config.json'' ''r'') w)))) \<and>
   (config_file env = Content (Json cfg) \<longrightarrow>
      script env w =
        main env cfg (emit FileClose (emit JsonLoad (emit (Open ''db_config.json'' ''r'') w))) \<and>
      filter is_connect (trace (snd (script env w))) =
        filter is_connect (trace w) @
          (if stdin env \<noteq> None \<and> remote env \<noteq> None \<and> is_mapping cfg
           then [Connect cfg] else [])) \<and>
   filter is_open (trace (snd (script env w))) =
     filter is_open (trace w) @ [Open ''db_config.json'' ''r'']"
proof (cases "config_file env")
  case Missing
  then show ?thesis
    by (simp add: script_def andthen_def load_db_config_cases emit_def)
next
  case Unreadable
  then show ?thesis
    by (simp add: script_def andthen_def load_db_config_cases emit_def)
next
  case (Content c)
  then show ?thesis
    by (cases c)
       (simp_all add: script_def andthen_def load_db_config_cases main_no_open main_connect,
        simp_all add: emit_def)
qed

theorem config_loaded_once_witness:
  "script (env_ok\<lparr>config_file := Missing\<rparr>) init_world =
     (Inl (FileNotFoundError ''db_config.json''),
      init_world\<lparr>trace := [Open ''db_config.json'' ''r'']\<rparr>) \<and>
   script (env_ok\<lparr>config_file := Unreadable\<rparr>) init_world =
     (Inl (PermissionError ''db_config.json''),
      init_world\<lparr>trace := [Open ''db_config.json'' ''r'']\<rparr>) \<and>
   script (env_ok\<lparr>config_file := Content Undecodable\<rparr>) init_world =
     (Inl UnicodeDecodeError,
      init_world\<lparr>trace := [Open ''db_config.json'' ''r'', JsonLoad, FileClose]\<rparr>) \<and>
   script (env_ok\<lparr>config_file := Content NotJson\<rparr>) init_world =
     (Inl JSONDecodeError,
      init_world\<lparr>trace := [Open ''db_config.json'' ''r'', JsonLoad, FileClose]\<rparr>) \<and>
   filter is_connect (trace (snd (script env_ok init_world))) = [Connect cfg0] \<and>
   filter is_open (trace (snd (script env_ok init_world))) = [Open ''db_config.json'' ''r'']"
proof -
  have start: "trace init_world = []"
    by (simp add: init_world_def)
  have valid: "config_file env_ok = Content (Json cfg0)" "stdin env_ok \<noteq> None"
      "remote env_ok \<noteq> None" "is_mapping cfg0"
    by (simp_all add: env_ok_def cfg0_def is_mapping_def)
  have missing: "script (env_ok\<lparr>config_file := Missing\<rparr>) init_world =
      (Inl (FileNotFoundError ''db_config.json''), emit (Open ''db_config.json'' ''r'') init_world)"
    using config_loaded_once [of "env_ok\<lparr>config_file := Missing\<rparr>" init_world cfg0]
    by simp
  have unreadable: "script (env_ok\<lparr>config_file := Unreadable\<rparr>) init_world =
      (Inl (PermissionError ''db_config.json''), emit (Open ''db_config.json'' ''r'') init_world)"
    using config_loaded_once [of "env_ok\<lparr>config_file := Unreadable\<rparr>" init_world cfg0]
    by simp
  have undecodable: "script (env_ok\<lparr>config_file := Content Undecodable\<rparr>) init_world =
      (Inl UnicodeDecodeError,
       emit FileClose (emit JsonLoad (emit (Open ''db_config.json'' ''r'') init_world)))"
    using config_loaded_once [of "env_ok\<lparr>config_file := Content Undecodable\<rparr>" init_world cfg0]
    by simp
  have notjson: "script (env_ok\<lparr>config_file := Content NotJson\<rparr>) init_world =
      (Inl JSONDecodeError,
       emit FileClose (emit JsonLoad (emit (Open ''db_config.json'' ''r'') init_world)))"
    using config_loaded_once [of "env_ok\<lparr>config_file := Content NotJson\<rparr>" init_world cfg0]
    by simp
  have "filter is_connect (trace (snd (script env_ok init_world))) =
      filter is_connect (trace init_world) @
        (if stdin env_ok \<noteq> None \<and> remote env_ok \<noteq> None \<and> is_mapping cfg0
         then [Connect cfg0] else [])"
    and "filter is_open (trace (snd (script env_ok init_world))) =
      filter is_open (trace init_world) @ [Open ''db_config.json'' ''r'']"
    using config_loaded_once [of env_ok init_world cfg0] valid(1)
    by blast+
  then have loaded:
      "filter is_connect (trace (snd (script env_ok init_world))) = [Connect cfg0]"
      "filter is_open (trace (snd (script env_ok init_world))) = [Open ''db_config.json'' ''r'']"
    using valid by (simp_all add: start)
  show ?thesis
    using missing unreadable undecodable notjson loaded by (simp add: emit_def init_world_def)
qed

end
